theory Spec2Isabelle
  imports Complex_Main "HOL-Library.Char_ord" "HOL-Library.List_Lexorder" "HOL-Library.AList"
    "HOL-Library.Multiset"
begin

section \<open>The adapter's write path (cmd/prometheus-postgresql-adapter/main.go)\<close>

subsection \<open>Values, errors, log lines\<close>

text \<open>
  A Go \<open>error\<close> is modelled by its message; \<open>nil\<close> is \<open>None\<close>. The package
  \<open>log\<close> writes leveled key/value lines; the model appends them to a list kept in the
  state, so that "only logged" is a statement about that list.
\<close>

type_synonym error = string

datatype level = LDebug | LInfo | LWarn | LError

datatype logval = S string | N nat | E error | R real

type_synonym log_line = "level \<times> logval list"

subsection \<open>Samples\<close>

text \<open>
  \<open>model.Metric\<close> is a Go map from label names to label values. It is modelled by an
  association list with pairwise distinct keys; the order of the list is the order in
  which a \<open>range\<close> loop visits the map, which Go leaves unspecified.
  \<open>model.Sample\<close> carries the metric, a \<open>float64\<close> value (kept opaque: the code only
  passes it on) and a millisecond timestamp.
\<close>

type_synonym metric = "(string \<times> string) list"

record 'v sample =
  Metric :: metric
  Value :: 'v
  Timestamp :: int

subsection \<open>Process-wide state of main.go\<close>

text \<open>
  The package-level variables of main.go: the liveness timestamp, the counters and the
  histogram. A \<open>CounterVec\<close> is a map from the value of its one label (\<open>remote\<close>) to a
  count; \<open>WithLabelValues(l).Add(n)\<close> creates the child at 0 when it is missing and
  adds \<open>n\<close>. The counts added are batch sizes, which the Prometheus client keeps exactly
  in an integer, hence \<open>nat\<close>. A \<open>HistogramVec\<close> is modelled by the list of values
  observed per label.
\<close>

record adapter_state =
  lastRequestUnixNano :: int
  receivedSamples :: nat
  sentSamples :: "string \<rightharpoonup> nat"
  failedSamples :: "string \<rightharpoonup> nat"
  sentBatchDuration :: "string \<rightharpoonup> real list"
  httpRequestDuration :: "string \<rightharpoonup> real list"
  throughputCurrent :: nat
  logged :: "log_line list"

definition log_add :: "level \<Rightarrow> logval list \<Rightarrow> adapter_state \<Rightarrow> adapter_state" where
  "log_add lv kvs st = st\<lparr>logged := logged st @ [(lv, kvs)]\<rparr>"

definition counter_value :: "(string \<rightharpoonup> nat) \<Rightarrow> string \<Rightarrow> nat" where
  "counter_value c l = (case c l of None \<Rightarrow> 0 | Some n \<Rightarrow> n)"

definition counter_add :: "string \<Rightarrow> nat \<Rightarrow> (string \<rightharpoonup> nat) \<Rightarrow> (string \<rightharpoonup> nat)" where
  "counter_add l n c = c(l \<mapsto> counter_value c l + n)"

definition histogram_observe ::
  "string \<Rightarrow> real \<Rightarrow> (string \<rightharpoonup> real list) \<Rightarrow> (string \<rightharpoonup> real list)" where
  "histogram_observe l x h = h(l \<mapsto> (case h l of None \<Rightarrow> [] | Some xs \<Rightarrow> xs) @ [x])"

subsection \<open>The destination and the elector\<close>

text \<open>
  The interface \<open>writer\<close>: \<open>Write(samples) error\<close> and \<open>Name() string\<close>. The
  destination has a state of its own (\<open>'d\<close>: the store behind it), which \<open>Write\<close> may
  change; a call that is never made leaves it as it was, whatever \<open>Write\<close> is.

  The elector lives in package \<open>util\<close>, which is not among the sources. \<open>sendSamples\<close>
  only calls \<open>IsLeader()\<close> and \<open>ID()\<close> on it, so the model takes what these two calls
  return; a \<open>nil\<close> elector is \<open>None\<close>.
\<close>

record ('s, 'd) writer =
  Write :: "'s \<Rightarrow> 'd \<Rightarrow> error option \<times> 'd"
  Name :: string

record elector =
  IsLeader :: "bool \<times> error option"
  ID :: string

subsection \<open>sendSamples\<close>

text \<open>
  \<open>now\<close> is the reading of \<open>time.Now().UnixNano()\<close> stored in the liveness timestamp,
  \<open>dur\<close> is \<open>time.Since(begin).Seconds()\<close>.
\<close>

definition sendSamples ::
  "elector option \<Rightarrow> ('v sample list, 'd) writer \<Rightarrow> int \<Rightarrow> real \<Rightarrow> 'v sample list \<Rightarrow>
     adapter_state \<Rightarrow> 'd \<Rightarrow> error option \<times> adapter_state \<times> 'd" where
  "sendSamples el w now dur samples st0 d =
    (let st = st0\<lparr>lastRequestUnixNano := now\<rparr>;
         (shouldWrite, err) = (case el of None \<Rightarrow> (True, None) | Some e \<Rightarrow> IsLeader e)
     in if el \<noteq> None \<and> err \<noteq> None then
          (err, log_add LError [S ''msg'', S ''IsLeader check failed'', S ''err'', E (the err)] st, d)
        else if shouldWrite then
          (case Write w samples d of
             (Some werr, d') \<Rightarrow>
               (Some werr,
                st\<lparr>failedSamples := counter_add (Name w) (length samples) (failedSamples st)\<rparr>,
                d')
           | (None, d') \<Rightarrow>
               (None,
                st\<lparr>sentSamples := counter_add (Name w) (length samples) (sentSamples st),
                   sentBatchDuration := histogram_observe (Name w) dur (sentBatchDuration st)\<rparr>,
                d'))
        else
          (None,
           log_add LDebug [S ''msg'',
             S (''Election id '' @ (case el of None \<Rightarrow> [] | Some e \<Rightarrow> ID e) @
                '': Instance is not a leader. Can't write data'')] st,
           d))"

subsection \<open>The remote-write request and protoToSamples\<close>

text \<open>
  \<open>prompb.WriteRequest\<close>: a list of time series, each with its labels (name, value) and
  its samples (value, timestamp). \<open>protoToSamples\<close> builds one metric per series by
  assigning the labels in order into a fresh map (a later label of the same name
  overwrites the earlier one) and emits one \<open>model.Sample\<close> per sample of the series.
\<close>

record 'v TimeSeries =
  Labels :: "(string \<times> string) list"
  Samples :: "('v \<times> int) list"

definition protoToSamples :: "'v TimeSeries list \<Rightarrow> 'v sample list" where
  "protoToSamples req =
     concat (map (\<lambda>ts.
       let metric = fold (\<lambda>(n, v) m. AList.update n v m) (Labels ts) []
       in map (\<lambda>(v, t). \<lparr>Metric = metric, Value = v, Timestamp = t\<rparr>) (Samples ts)) req)"

subsection \<open>The handler of /write (the function write of main.go)\<close>

text \<open>
  The response is the status code and the body; a handler that writes nothing answers
  200 with an empty body, \<open>http.Error\<close> sets the code and writes the message and a
  newline. \<open>io.ReadAll\<close> on the request body has already happened (\<open>rbody\<close> is its
  result); \<open>snappy.Decode\<close> and \<open>proto.Unmarshal\<close> are library functions, taken as
  parameters. \<open>tick\<close> is what the non-blocking receive on the throughput channel finds.
  \<open>GetMetricWithLabelValues\<close> with the one label value the vector expects creates the
  child when it is missing and cannot fail, and neither can reading the counter, so
  the two warnings for these errors have no branch here; \<open>SetCurrent\<close> of the throughput
  calculator (package \<open>util\<close>) is the assignment to \<open>throughputCurrent\<close>.
\<close>

record response =
  status :: nat
  body :: string

definition http_Error :: "string \<Rightarrow> nat \<Rightarrow> response" where
  "http_Error msg code = \<lparr>status = code, body = msg @ [CHR 0x0A]\<rparr>"

definition counter_get :: "string \<Rightarrow> (string \<rightharpoonup> nat) \<Rightarrow> (string \<rightharpoonup> nat)" where
  "counter_get l c = c(l \<mapsto> counter_value c l)"

definition write_handler ::
  "(string \<Rightarrow> error + string) \<Rightarrow> (string \<Rightarrow> error + 'v TimeSeries list) \<Rightarrow>
     elector option \<Rightarrow> ('v sample list, 'd) writer \<Rightarrow> int \<Rightarrow> real \<Rightarrow> real option \<Rightarrow>
     error + string \<Rightarrow> adapter_state \<Rightarrow> 'd \<Rightarrow> response \<times> adapter_state \<times> 'd" where
  "write_handler snappyDecode unmarshal el w now dur tick rbody st d =
    (case rbody of
       Inl err \<Rightarrow>
         (http_Error err 500, log_add LError [S ''msg'', S ''Read error'', S ''err'', S err] st, d)
     | Inr compressed \<Rightarrow>
        (case snappyDecode compressed of
           Inl err \<Rightarrow>
             (http_Error err 400,
              log_add LError [S ''msg'', S ''Decode error'', S ''err'', S err] st, d)
         | Inr reqBuf \<Rightarrow>
            (case unmarshal reqBuf of
               Inl err \<Rightarrow>
                 (http_Error err 400,
                  log_add LError [S ''msg'', S ''Unmarshal error'', S ''err'', S err] st, d)
             | Inr req \<Rightarrow>
                (let samples = protoToSamples req;
                     st1 = st\<lparr>receivedSamples := receivedSamples st + length samples\<rparr>;
                     (err, st2, d') = sendSamples el w now dur samples st1 d;
                     st3 = (case err of
                              None \<Rightarrow> st2
                            | Some e \<Rightarrow>
                                log_add LWarn [S ''msg'', S ''Error sending samples to remote storage'',
                                  S ''err'', E e, S ''storage'', S (Name w),
                                  S ''num_samples'', N (length samples)] st2);
                     st4 = st3\<lparr>sentSamples := counter_get (Name w) (sentSamples st3)\<rparr>;
                     st5 = st4\<lparr>throughputCurrent := counter_value (sentSamples st4) (Name w)\<rparr>;
                     st6 = (case tick of
                              None \<Rightarrow> st5
                            | Some x \<Rightarrow>
                                log_add LInfo [S ''msg'', S ''Samples write throughput'',
                                  S ''samples/sec'', R x] st5)
                 in (\<lparr>status = 200, body = []\<rparr>, st6, d')))))"

text \<open>
  \<open>timeHandler\<close> wraps a handler and observes the elapsed milliseconds (a whole number:
  nanoseconds divided by \<open>time.Millisecond\<close>) in the request-duration histogram.
\<close>

definition timeHandler ::
  "string \<Rightarrow> (adapter_state \<Rightarrow> 'd \<Rightarrow> response \<times> adapter_state \<times> 'd) \<Rightarrow> nat \<Rightarrow>
     adapter_state \<Rightarrow> 'd \<Rightarrow> response \<times> adapter_state \<times> 'd" where
  "timeHandler path handler elapsedNs st d =
    (let (resp, st', d') = handler st d
     in (resp,
         st'\<lparr>httpRequestDuration :=
               histogram_observe path (real (elapsedNs div 1000000)) (httpRequestDuration st')\<rparr>,
         d'))"

section \<open>Configuration and the elector's start-up (main.go, pkg/postgresql)\<close>

text \<open>
  \<open>pgprometheus.Config\<close> and the adapter's \<open>config\<close>, field by field. Go's \<open>int\<close> and
  \<open>time.Duration\<close> (nanoseconds) are integers; the code only compares and prints them.
\<close>

record Config =
  host :: string
  port :: int
  user :: string
  passwordFile :: string
  database :: string
  schema :: string
  sslMode :: string
  table :: string
  maxOpenConns :: int
  maxIdleConns :: int
  pgPrometheusLogSamples :: bool
  dbConnectRetries :: int

record config =
  remoteTimeout :: int
  listenAddr :: string
  telemetryPath :: string
  pgPrometheusConfig :: Config
  logLevel :: string
  haGroupLockID :: int
  restElection :: bool
  prometheusTimeout :: int
  electionInterval :: int

text \<open>
  A function that may end the process with \<open>os.Exit(code)\<close> returns \<open>Exit code\<close>;
  otherwise \<open>Started\<close> with its result.
\<close>

datatype 'a startup = Exit nat | Started 'a

text \<open>
  What \<open>initElector\<close> hands back: no elector (\<open>nil\<close>), the REST elector, or the scheduled
  elector on the advisory lock, together with whether the goroutine of the liveness
  check (the idle-resignation monitor) was started. \<open>util.NewPgAdvisoryLock\<close> is not
  among the sources: \<open>newPgAdvisoryLock\<close> is the error it returns, if any.
\<close>

datatype election = NoElector | RestElector | ScheduledElector bool

definition initElector ::
  "(int \<Rightarrow> error option) \<Rightarrow> config \<Rightarrow> election startup \<times> log_line list" where
  "initElector newPgAdvisoryLock cfg =
    (if restElection cfg \<and> haGroupLockID cfg \<noteq> 0 then
       (Exit 1, [(LError, [S ''msg'', S ''Use either REST or PgAdvisoryLock for the leader election''])])
     else if restElection cfg then (Started RestElector, [])
     else if haGroupLockID cfg = 0 then
       (Started NoElector,
        [(LWarn, [S ''msg'', S (''No adapter leader election. Group lock id is not set. '' @
            ''Possible duplicate write load if running adapter in high-availability mode'')])])
     else if prometheusTimeout cfg = - 1 then
       (Exit 1,
        [(LError, [S ''msg'',
            S ''Prometheus timeout configuration must be set when using PG advisory lock''])])
     else
       (case newPgAdvisoryLock (haGroupLockID cfg) of
          Some err \<Rightarrow>
            (Exit 1, [(LError, [S ''msg'', S ''Error creating advisory lock'', S ''err'', E err])])
        | None \<Rightarrow>
            (Started (ScheduledElector (prometheusTimeout cfg \<noteq> 0)),
             [(LInfo, [S ''msg'',
                 S ''Initialized leader election based on PostgreSQL advisory lock''])])))"

section \<open>Canonical label text (pkg/postgresql/client.go, metricMetaJson)\<close>

text \<open>
  \<open>json.Marshal\<close> belongs to Go's library; \<open>metricMetaJson\<close> takes it as the parameter
  \<open>marshal\<close>, with the error it may return. The loop over the map appends one
  \<open>"label: value"\<close> string per label other than \<open>__name__\<close>, in the order of iteration,
  and skips a label when marshalling fails (the warning it logs then is left out of the
  model). \<open>sort.Strings\<close> is \<open>sort\<close> on the bytewise lexicographic order of strings, and
  \<open>strings.Join\<close> is \<open>join\<close>.
\<close>

definition MetricNameLabel :: string where
  "MetricNameLabel = ''__name__''"

fun join :: "string list \<Rightarrow> string \<Rightarrow> string" where
  "join [] sep = []"
| "join [x] sep = x"
| "join (x # y # ys) sep = x @ sep @ join (y # ys) sep"

fun labelStrings :: "(string \<Rightarrow> error + string) \<Rightarrow> metric \<Rightarrow> string list" where
  "labelStrings marshal [] = []"
| "labelStrings marshal ((label, val) # m) =
     (if label \<noteq> MetricNameLabel then
        (case marshal label of
           Inl err \<Rightarrow> labelStrings marshal m
         | Inr escapedLabel \<Rightarrow>
            (case marshal val of
               Inl err \<Rightarrow> labelStrings marshal m
             | Inr escapedValue \<Rightarrow>
                 (escapedLabel @ '': '' @ escapedValue) # labelStrings marshal m))
      else labelStrings marshal m)"

definition metricMetaJson :: "(string \<Rightarrow> error + string) \<Rightarrow> metric \<Rightarrow> string \<times> string" where
  "metricMetaJson marshal m =
    (let hasName = (map_of m MetricNameLabel \<noteq> None);
         metricName = (case map_of m MetricNameLabel of None \<Rightarrow> [] | Some n \<Rightarrow> n);
         numLabels = (if hasName then int (length m) - 1 else int (length m))
     in if numLabels = 0 then (if hasName then (metricName, ''{}'') else ([], ''{}''))
        else (metricName, ''{'' @ join (sort (labelStrings marshal m)) '','' @ ''}''))"

text \<open>
  A model of \<open>json.Marshal\<close> on a Go string, for evaluating \<open>metricMetaJson\<close> on concrete
  labels: the string between double quotes, with the quote and the backslash escaped by
  a backslash, the control characters with a short escape by it, and the other bytes
  below 0x20 and \<open><\<close>, \<open>>\<close>, \<open>&\<close> as \<open>\u00XX\<close>. It never fails. It is exact on strings
  of bytes below 0x80, the only ones it is applied to here (beyond them the library also
  rewrites invalid UTF-8 and two line separators).
\<close>

definition hex :: "nat \<Rightarrow> char" where
  "hex n = ''0123456789abcdef'' ! n"

definition json_escape :: "char \<Rightarrow> string" where
  "json_escape c =
    (if c = CHR 0x22 \<or> c = CHR 0x5C then [CHR 0x5C, c]
     else if c = CHR 0x08 then [CHR 0x5C, CHR ''b'']
     else if c = CHR 0x0C then [CHR 0x5C, CHR ''f'']
     else if c = CHR 0x0A then [CHR 0x5C, CHR ''n'']
     else if c = CHR 0x0D then [CHR 0x5C, CHR ''r'']
     else if c = CHR 0x09 then [CHR 0x5C, CHR ''t'']
     else if of_char c < (0x20 :: nat) \<or> c = CHR ''<'' \<or> c = CHR ''>'' \<or> c = CHR ''&'' then
       [CHR 0x5C, CHR ''u'', CHR ''0'', CHR ''0'', hex (of_char c div 16), hex (of_char c mod 16)]
     else [c])"

definition json_string :: "string \<Rightarrow> string" where
  "json_string s = CHR 0x22 # concat (map json_escape s) @ [CHR 0x22]"

definition json_Marshal :: "string \<Rightarrow> error + string" where
  "json_Marshal s = Inr (json_string s)"

text \<open>
  The spec's words for the canonical text, to compare the code with: the labels other
  than the metric name, sorted by key, each rendered \<open>key: value\<close> with both sides
  escaped by \<open>enc\<close>, joined by commas between braces.
\<close>

definition canonicalLabelsText :: "(string \<Rightarrow> string) \<Rightarrow> metric \<Rightarrow> string" where
  "canonicalLabelsText enc m =
     ''{'' @ join (map (\<lambda>(k, v). enc k @ '': '' @ enc v)
                    (sort_key fst (filter (\<lambda>(k, v). k \<noteq> MetricNameLabel) m))) '','' @ ''}''"

text \<open>Label names made of letters, digits and underscores only.\<close>

definition valid_label_name :: "string \<Rightarrow> bool" where
  "valid_label_name k =
     (\<forall>c\<in>set k. c \<in> set ''abcdefghijklmnopqrstuvwxyzABCDEFGHIJKLMNOPQRSTUVWXYZ0123456789_'')"

section \<open>Creating the client (pkg/postgresql/client.go, NewClient)\<close>

text \<open>
  The file system is what \<open>os.ReadFile\<close> returns for a path at the moment of the call:
  an error or the content. \<open>%v\<close> of an \<open>int\<close> prints it in decimal.
\<close>

type_synonym filesystem = "string \<Rightarrow> error + string"

fun show_nat :: "nat \<Rightarrow> string" where
  "show_nat n =
     (if n < 10 then [''0123456789'' ! n]
      else show_nat (n div 10) @ [''0123456789'' ! (n mod 10)])"

definition show_int :: "int \<Rightarrow> string" where
  "show_int i = (if i < 0 then ''-'' @ show_nat (nat (- i)) else show_nat (nat i))"

subsection \<open>The client on lib/pq: the password is read once\<close>

text \<open>
  This \<open>NewClient\<close> reads the password file, puts the password into the connection
  string and logs the string after
  \<open>regexp.MustCompile("password='(.+?)'").ReplaceAllLiteralString(connStr, "password='****'")\<close>.
  \<open>maskPassword\<close> is that replacement: at the leftmost place where \<open>password='\<close> is
  followed by at least one character other than a newline and then, after as few such
  characters as possible, by a quote, the whole match is replaced, and the search goes
  on behind it (\<open>.\<close> does not match a newline, \<open>+?\<close> takes the shortest run).
  \<open>match_password\<close> gives the text behind a match at the start of its argument.
\<close>

fun find_close :: "string \<Rightarrow> string option" where
  "find_close [] = None"
| "find_close (c # cs) =
     (if c = CHR 0x27 then Some cs else if c = CHR 0x0A then None else find_close cs)"

definition match_password :: "string \<Rightarrow> string option" where
  "match_password s =
     (if take 10 s = ''password='' @ [CHR 0x27] then
        (case drop 10 s of
           [] \<Rightarrow> None
         | c # cs \<Rightarrow> if c = CHR 0x0A then None else find_close cs)
      else None)"

lemma find_close_shorter: "find_close cs = Some r \<Longrightarrow> length r < length cs"
  by (induction cs) (auto split: if_splits)

lemma match_password_shorter: "match_password s = Some r \<Longrightarrow> length r < length s"
proof -
  assume m: "match_password s = Some r"
  then obtain c cs where d: "drop 10 s = c # cs" and f: "find_close cs = Some r"
    by (auto simp: match_password_def split: if_splits list.splits)
  have "length r < length cs" using f by (rule find_close_shorter)
  also have "length cs < length (drop 10 s)" using d by simp
  also have "\<dots> \<le> length s" by simp
  finally show ?thesis .
qed

function maskPassword :: "string \<Rightarrow> string" where
  "maskPassword [] = []"
| "maskPassword (c # cs) =
     (case match_password (c # cs) of
        Some behind \<Rightarrow> ''password='' @ [CHR 0x27] @ ''****'' @ [CHR 0x27] @ maskPassword behind
      | None \<Rightarrow> c # maskPassword cs)"
  by pat_completeness auto
termination
  by (relation "measure length") (auto dest: match_password_shorter)

definition legacy_connStr :: "Config \<Rightarrow> string \<Rightarrow> string" where
  "legacy_connStr c password =
     ''host='' @ host c @ '' port='' @ show_int (port c) @ '' user='' @ user c @
     '' dbname='' @ database c @ '' password='' @ [CHR 0x27] @ password @ [CHR 0x27] @
     '' sslmode='' @ sslMode c @ '' connect_timeout=10''"

record legacy_Client =
  legacy_connString :: string
  legacy_config :: Config

text \<open>
  \<open>sqlOpen\<close> is the outcome of \<open>util.RetryWithFixedDelay\<close> around \<open>sql.Open\<close> (package
  \<open>util\<close> and the driver are not among the sources), \<open>dbPrepare\<close> that of preparing the
  statement which creates the staging table. The connection string, password included,
  stays in the client for all later connections.
\<close>

definition legacy_NewClient ::
  "(string \<Rightarrow> error option) \<Rightarrow> (string \<Rightarrow> error option) \<Rightarrow> filesystem \<Rightarrow> Config \<Rightarrow>
     legacy_Client startup \<times> log_line list" where
  "legacy_NewClient sqlOpen dbPrepare fs c =
    (case fs (passwordFile c) of
       Inl err \<Rightarrow>
         (Exit 1,
          [(LError, [S ''msg'',
              S ''Password file for establishing postgresql connection not found'',
              S ''err'', E err])])
     | Inr content \<Rightarrow>
        (let connStr = legacy_connStr c content;
             info = [(LInfo, [S ''msg'', S (maskPassword connStr)])]
         in case sqlOpen connStr of
              Some err \<Rightarrow> (Exit 1, info @ [(LError, [S ''err'', E err])])
            | None \<Rightarrow>
               (case dbPrepare (''CREATE TEMPORARY TABLE IF NOT EXISTS '' @ table c @
                                ''_tmp(sample prom_sample) ON COMMIT DELETE ROWS;'') of
                  Some err \<Rightarrow>
                    (Exit 1,
                     info @ [(LError, [S ''msg'',
                        S ''Error on preparing create tmp table statement'', S ''err'', E err])])
                | None \<Rightarrow>
                    (Started \<lparr>legacy_connString = connStr, legacy_config = c\<rparr>, info))))"

subsection \<open>The client on pgx: the password is read before every connection\<close>

text \<open>
  \<open>pgx.ParseConfig\<close> is the library's, taken as the parameter \<open>parseConfig\<close>; of the
  connection configuration it returns the model keeps the string it came from and the
  password field. The client holds a connector made of that configuration and the hook
  \<open>beforeConnectHook\<close>, which reads the password file when it runs.
\<close>

record ConnConfig =
  ConnString :: string
  Password :: string

record Client =
  client_connConfig :: ConnConfig
  client_config :: Config

definition baseConnStr :: "Config \<Rightarrow> string" where
  "baseConnStr c =
     ''host='' @ host c @ '' port='' @ show_int (port c) @ '' user='' @ user c @
     '' dbname='' @ database c @ '' sslmode='' @ sslMode c @ '' connect_timeout=10''"

definition readPassword :: "filesystem \<Rightarrow> Config \<Rightarrow> string startup \<times> log_line list" where
  "readPassword fs c =
    (case fs (passwordFile c) of
       Inl err \<Rightarrow>
         (Exit 1,
          [(LError, [S ''msg'',
              S ''Password file for establishing postgresql connection not found'',
              S ''err'', E err])])
     | Inr content \<Rightarrow> (Started content, []))"

definition beforeConnectHook ::
  "Config \<Rightarrow> filesystem \<Rightarrow> ConnConfig option \<Rightarrow> ConnConfig option startup \<times> log_line list" where
  "beforeConnectHook c fs connConfig =
    (case connConfig of
       None \<Rightarrow> (Started None, [])
     | Some cc \<Rightarrow>
        (let dbg = [(LDebug, [S ''msg'',
                      S ''Re-reading password before establishing new connection...''])]
         in case readPassword fs c of
              (Exit n, lg) \<Rightarrow> (Exit n, dbg @ lg)
            | (Started password, lg) \<Rightarrow> (Started (Some (cc\<lparr>Password := password\<rparr>)), dbg @ lg)))"

definition NewClient ::
  "(string \<Rightarrow> error + ConnConfig) \<Rightarrow> Config \<Rightarrow> Client startup \<times> log_line list" where
  "NewClient parseConfig c =
    (case parseConfig (baseConnStr c) of
       Inl err \<Rightarrow> (Exit 1, [(LError, [S ''err'', E err])])
     | Inr conf \<Rightarrow>
         (Started \<lparr>client_connConfig = conf, client_config = c\<rparr>,
          [(LInfo, [S ''msg'', S (baseConnStr c)])]))"

text \<open>
  What the pool does to open a new connection (the connector of pgx's \<open>stdlib\<close>, with
  the option \<open>OptionBeforeConnect\<close>): it copies the connector's configuration, runs the
  hook on the copy and connects with the result. \<open>connect\<close> gives the configuration the
  new session is opened with; \<open>connects\<close> does so for a series of connections, each at
  the file system of its moment.
\<close>

definition connect :: "Client \<Rightarrow> filesystem \<Rightarrow> ConnConfig startup" where
  "connect cl fs =
    (case fst (beforeConnectHook (client_config cl) fs (Some (client_connConfig cl))) of
       Exit n \<Rightarrow> Exit n
     | Started None \<Rightarrow> Started (client_connConfig cl)
     | Started (Some cc) \<Rightarrow> Started cc)"

definition connects :: "Client \<Rightarrow> filesystem list \<Rightarrow> ConnConfig startup list" where
  "connects cl fss = map (connect cl) fss"

section \<open>The batched writer (pkg/postgresql/client.go, Write on pgx)\<close>

subsection \<open>The store as one session sees it\<close>

text \<open>
  Modelled from the spec: the declarations of the relations are not among the sources
  (the code only names them in its statements). The spec gives
  \<open>{prefix}_labels (id, metric_name, labels)\<close> with a uniqueness constraint on
  \<open>(metric_name, labels)\<close> and \<open>{prefix}_values (time, value, labels_id)\<close>, with no
  further constraint on \<open>labels_id\<close>, which the model lets be null. Identifiers come from
  a counter. The \<open>jsonb\<close> column \<open>labels\<close> holds the canonical text and is compared as
  that text.

  The staging table \<open>{prefix}_tmp\<close> belongs to the session: \<open>None\<close> when the session has
  no such table. \<open>conn_held\<close> says that the session is reserved by a caller and not in
  the pool. The lines the writer logs are collected in \<open>pg_log\<close>.
\<close>

record label_row =
  l_id :: nat
  l_metric_name :: string
  l_labels :: string

record 'v value_row =
  v_time :: int
  v_value :: 'v
  v_labels_id :: "nat option"

record 'v staged_row =
  s_time :: int
  s_value :: 'v
  s_metric_name :: string
  s_labels :: string

record 'v pg =
  labels_tbl :: "label_row list"
  values_tbl :: "'v value_row list"
  next_id :: nat
  tmp_tbl :: "'v staged_row list option"
  conn_held :: bool
  pg_log :: "log_line list"

definition pg_log_add :: "level \<Rightarrow> logval list \<Rightarrow> 'v pg \<Rightarrow> 'v pg" where
  "pg_log_add lv kvs db = db\<lparr>pg_log := pg_log db @ [(lv, kvs)]\<rparr>"

text \<open>
  Every interaction with the store can fail for reasons outside the program (the
  network, the server). A fault plan says, for each step of one \<open>Write\<close>, whether it
  fails so and with which error; a step that fails so changes nothing in the store.
\<close>

datatype txn = TxLabels | TxValues

datatype step =
  Acquire | CreateTmp | CopyFrom | BeginTx txn | Prepare txn | Exec txn | CloseStmt txn |
  Commit txn | DropTmp

type_synonym faults = "step \<Rightarrow> error option"

definition exec ::
  "faults \<Rightarrow> step \<Rightarrow> ('v pg \<Rightarrow> error + 'v pg) \<Rightarrow> 'v pg \<Rightarrow> error + 'v pg" where
  "exec f st stmt db = (case f st of Some err \<Rightarrow> Inl err | None \<Rightarrow> stmt db)"

subsection \<open>The statements\<close>

text \<open>
  \<open>sqlCreateTmpTable\<close>: \<open>create temporary table {prefix}_tmp (...) on commit preserve rows\<close>
  fails when the session has the table already. \<open>sqlTempTableCleanup\<close>:
  \<open>drop table {prefix}_tmp\<close> fails when there is none. \<open>copyFrom\<close> is the bulk load of the
  rows into the staging table.
\<close>

definition sqlCreateTmpTable :: "'v pg \<Rightarrow> error + 'v pg" where
  "sqlCreateTmpTable db =
     (case tmp_tbl db of
        Some rows \<Rightarrow> Inl ''relation already exists''
      | None \<Rightarrow> Inr (db\<lparr>tmp_tbl := Some []\<rparr>))"

definition sqlTempTableCleanup :: "'v pg \<Rightarrow> error + 'v pg" where
  "sqlTempTableCleanup db =
     (case tmp_tbl db of
        None \<Rightarrow> Inl ''table does not exist''
      | Some rows \<Rightarrow> Inr (db\<lparr>tmp_tbl := None\<rparr>))"

definition copyFrom :: "'v staged_row list \<Rightarrow> 'v pg \<Rightarrow> error + 'v pg" where
  "copyFrom inputRows db =
     (case tmp_tbl db of
        None \<Rightarrow> Inl ''relation does not exist''
      | Some rows \<Rightarrow> Inr (db\<lparr>tmp_tbl := Some (rows @ inputRows)\<rparr>))"

text \<open>
  \<open>sqlInsertLabels\<close>:
  \<open>insert into {prefix}_labels (metric_name, labels) select distinct sample.metric_name,
  sample.labels from {prefix}_tmp sample on conflict do nothing\<close>. Each distinct staged
  pair is proposed once; a pair that a row of the table already has (the uniqueness
  constraint) is passed over, any other gets a new row with the next identifier.
\<close>

definition label_key :: "label_row \<Rightarrow> string \<times> string" where
  "label_key l = (l_metric_name l, l_labels l)"

definition staged_key :: "'v staged_row \<Rightarrow> string \<times> string" where
  "staged_key r = (s_metric_name r, s_labels r)"

fun insert_on_conflict_do_nothing ::
  "(string \<times> string) list \<Rightarrow> label_row list \<Rightarrow> nat \<Rightarrow> label_row list \<times> nat" where
  "insert_on_conflict_do_nothing [] tbl n = (tbl, n)"
| "insert_on_conflict_do_nothing (p # ps) tbl n =
     (if p \<in> set (map label_key tbl) then insert_on_conflict_do_nothing ps tbl n
      else insert_on_conflict_do_nothing ps
             (tbl @ [\<lparr>l_id = n, l_metric_name = fst p, l_labels = snd p\<rparr>]) (Suc n))"

definition sqlInsertLabels :: "'v pg \<Rightarrow> error + 'v pg" where
  "sqlInsertLabels db =
     (case tmp_tbl db of
        None \<Rightarrow> Inl ''relation does not exist''
      | Some rows \<Rightarrow>
          (let (tbl, n) = insert_on_conflict_do_nothing (remdups (map staged_key rows))
                            (labels_tbl db) (next_id db)
           in Inr (db\<lparr>labels_tbl := tbl, next_id := n\<rparr>)))"

text \<open>
  \<open>sqlInsertValues\<close>:
  \<open>insert into {prefix}_values (time, value, labels_id) select sample.time, sample.value,
  lbl.id from {prefix}_tmp sample left join {prefix}_labels lbl on lbl.metric_name =
  sample.metric_name and lbl.labels = sample.labels\<close>. A left join keeps a staged row
  that no label row matches, with null for \<open>lbl.id\<close>, and gives one row per match
  otherwise.
\<close>

definition left_join_labels :: "label_row list \<Rightarrow> 'v staged_row \<Rightarrow> 'v value_row list" where
  "left_join_labels tbl r =
     (case filter (\<lambda>l. l_metric_name l = s_metric_name r \<and> l_labels l = s_labels r) tbl of
        [] \<Rightarrow> [\<lparr>v_time = s_time r, v_value = s_value r, v_labels_id = None\<rparr>]
      | l # ls \<Rightarrow>
          map (\<lambda>l. \<lparr>v_time = s_time r, v_value = s_value r, v_labels_id = Some (l_id l)\<rparr>)
            (l # ls))"

definition sqlInsertValues :: "'v pg \<Rightarrow> error + 'v pg" where
  "sqlInsertValues db =
     (case tmp_tbl db of
        None \<Rightarrow> Inl ''relation does not exist''
      | Some rows \<Rightarrow>
          Inr (db\<lparr>values_tbl :=
                     values_tbl db @ concat (map (left_join_labels (labels_tbl db)) rows)\<rparr>))"

subsection \<open>The writer\<close>

text \<open>
  \<open>copyFromTmpTableInTransaction\<close> begins a transaction, prepares and executes the
  statement, closes it and commits. Every early return runs the deferred
  \<open>tx.Rollback()\<close>, so the statement's effect is kept only when the commit succeeds.
\<close>

definition copyFromTmpTableInTransaction ::
  "faults \<Rightarrow> txn \<Rightarrow> ('v pg \<Rightarrow> error + 'v pg) \<Rightarrow> string \<Rightarrow> 'v pg \<Rightarrow> error option \<times> 'v pg" where
  "copyFromTmpTableInTransaction f t query queryDescription db =
    (case f (BeginTx t) of
       Some err \<Rightarrow>
         (Some err,
          pg_log_add LError [S ''msg'', S ''Error on transaction setup'', S ''err'', E err,
            S ''desc'', S queryDescription] db)
     | None \<Rightarrow>
        (case f (Prepare t) of
           Some err \<Rightarrow>
             (Some err,
              pg_log_add LError [S ''msg'', S ''Error on preparing statement'', S ''err'', E err,
                S ''desc'', S queryDescription] db)
         | None \<Rightarrow>
            (case exec f (Exec t) query db of
               Inl err \<Rightarrow>
                 (Some err,
                  pg_log_add LError [S ''msg'', S ''Error executing statement'', S ''err'', E err,
                    S ''desc'', S queryDescription] db)
             | Inr db' \<Rightarrow>
                (case f (CloseStmt t) of
                   Some err \<Rightarrow>
                     (Some err,
                      pg_log_add LError [S ''msg'', S ''Error on closing statement'',
                        S ''err'', E err, S ''desc'', S queryDescription] db)
                 | None \<Rightarrow>
                    (case f (Commit t) of
                       Some err \<Rightarrow>
                         (Some err,
                          pg_log_add LError [S ''msg'', S ''Error on Commit'', S ''err'', E err,
                            S ''desc'', S queryDescription] db)
                     | None \<Rightarrow> (None, db'))))))"

definition insertLabels :: "faults \<Rightarrow> 'v pg \<Rightarrow> error option \<times> 'v pg" where
  "insertLabels f db = copyFromTmpTableInTransaction f TxLabels sqlInsertLabels ''labels'' db"

definition insertValues :: "faults \<Rightarrow> 'v pg \<Rightarrow> error option \<times> 'v pg" where
  "insertValues f db = copyFromTmpTableInTransaction f TxValues sqlInsertValues ''values'' db"

text \<open>
  \<open>cleanup\<close> drops the staging table, logs when that fails, and closes the reserved
  connection, which hands the session back to the pool whatever \<open>Close\<close> returns.
\<close>

definition cleanup :: "faults \<Rightarrow> 'v pg \<Rightarrow> 'v pg" where
  "cleanup f db =
    (let db' = (case exec f DropTmp sqlTempTableCleanup db of
                  Inl err \<Rightarrow>
                    pg_log_add LError [S ''msg'', S ''Failed to clean up temp table'',
                      S ''err'', E err] db
                | Inr dropped \<Rightarrow> dropped)
     in db'\<lparr>conn_held := False\<rparr>)"

text \<open>
  \<open>Write\<close> of the client (named \<open>Client_Write\<close> here, \<open>Write\<close> being the field of the
  interface). \<open>defer c.cleanup(ctx, conn)\<close> runs once a connection is reserved, on every
  return behind it. The optional dump of the samples to standard output and the
  duration in the last debug line are left out: they touch neither the store nor the
  result.
\<close>

definition inputRow :: "(string \<Rightarrow> error + string) \<Rightarrow> 'v sample \<Rightarrow> 'v staged_row" where
  "inputRow marshal sample =
    (let (metricName, metricJson) = metricMetaJson marshal (Metric sample)
     in \<lparr>s_time = Timestamp sample, s_value = Value sample,
         s_metric_name = metricName, s_labels = metricJson\<rparr>)"

definition Client_Write ::
  "(string \<Rightarrow> error + string) \<Rightarrow> faults \<Rightarrow> 'v sample list \<Rightarrow> 'v pg \<Rightarrow> error option \<times> 'v pg" where
  "Client_Write marshal f samples db =
    (case f Acquire of
       Some err \<Rightarrow>
         (Some err,
          pg_log_add LError [S ''msg'', S ''Failed to acquire database connection'',
            S ''err'', E err] db)
     | None \<Rightarrow>
        (let conn = db\<lparr>conn_held := True\<rparr>;
             (err, db') =
               (case exec f CreateTmp sqlCreateTmpTable conn of
                  Inl err \<Rightarrow>
                    (Some err,
                     pg_log_add LError [S ''msg'', S ''Error executing create tmp table'',
                       S ''err'', E err] conn)
                | Inr db1 \<Rightarrow>
                   (case exec f CopyFrom (copyFrom (map (inputRow marshal) samples)) db1 of
                      Inl err \<Rightarrow>
                        (Some err,
                         pg_log_add LError [S ''msg'', S ''Error on copy'', S ''err'', E err] db1)
                    | Inr db2 \<Rightarrow>
                       (case insertLabels f db2 of
                          (Some err, db3) \<Rightarrow> (Some err, db3)
                        | (None, db3) \<Rightarrow>
                           (case insertValues f db3 of
                              (Some err, db4) \<Rightarrow> (Some err, db4)
                            | (None, db4) \<Rightarrow>
                                (None,
                                 pg_log_add LDebug [S ''msg'', S ''Wrote samples'',
                                   S ''count'', N (length samples)] db4)))))
         in (err, cleanup f db')))"

definition Client_writer ::
  "(string \<Rightarrow> error + string) \<Rightarrow> faults \<Rightarrow> ('v sample list, 'v pg) writer" where
  "Client_writer marshal f = \<lparr>Write = Client_Write marshal f, Name = ''PostgreSQL''\<rparr>"

section \<open>Concrete inputs\<close>

text \<open>
  The inputs at which the theorems below are instantiated: the default configuration
  of the flags, an adapter state with all counters at zero, an empty store seen through
  a fresh session, and the batch of the spec's scenario, \<open>{__name__="up", job="a"}\<close> with
  the values 1 at time 1000 and 0 at time 2000.
\<close>

definition example_Config :: Config where
  "example_Config =
     \<lparr>host = ''localhost'', port = 5432, user = ''postgres'', passwordFile = ''/run/secrets/pw'',
      database = ''postgres'', schema = [], sslMode = ''disable'', table = ''metrics'',
      maxOpenConns = 50, maxIdleConns = 10, pgPrometheusLogSamples = False,
      dbConnectRetries = 0\<rparr>"

definition example_config :: "int \<Rightarrow> config" where
  "example_config timeout =
     \<lparr>remoteTimeout = 30000000000, listenAddr = '':9201'', telemetryPath = ''/metrics'',
      pgPrometheusConfig = example_Config, logLevel = ''debug'', haGroupLockID = 1,
      restElection = False, prometheusTimeout = timeout, electionInterval = 5000000000\<rparr>"

definition example_state :: adapter_state where
  "example_state =
     \<lparr>lastRequestUnixNano = 0, receivedSamples = 0, sentSamples = Map.empty,
      failedSamples = Map.empty, sentBatchDuration = Map.empty,
      httpRequestDuration = Map.empty, throughputCurrent = 0, logged = []\<rparr>"

definition example_pg :: "real pg" where
  "example_pg =
     \<lparr>labels_tbl = [], values_tbl = [], next_id = 1, tmp_tbl = None, conn_held = False,
      pg_log = []\<rparr>"

definition example_metric :: metric where
  "example_metric = [(''__name__'', ''up''), (''job'', ''a'')]"

definition example_request :: "real TimeSeries list" where
  "example_request = [\<lparr>Labels = example_metric, Samples = [(1, 1000), (0, 2000)]\<rparr>]"

definition example_batch :: "real sample list" where
  "example_batch =
     [\<lparr>Metric = example_metric, Value = 1, Timestamp = 1000\<rparr>,
      \<lparr>Metric = example_metric, Value = 0, Timestamp = 2000\<rparr>]"

definition fault_at :: "step \<Rightarrow> error \<Rightarrow> faults" where
  "fault_at st err = (\<lambda>s. if s = st then Some err else None)"

section \<open>Leadership gate\<close>

text \<open>
  C1. With an elector configured whose \<open>IsLeader()\<close> answers \<open>false\<close> and no error,
  \<open>sendSamples\<close> returns no error, does not depend on the destination's \<open>Write\<close> and
  leaves the destination's state as it was (the capability is not invoked), and the
  adapter's state differs from the one before only in the liveness timestamp and one
  debug log line: the sent counter, the failed counter and the histogram are unchanged.
\<close>

theorem sendSamples_not_leader:
  "sendSamples (Some \<lparr>IsLeader = (False, None), ID = i\<rparr>) w now dur samples st d =
     (None,
      st\<lparr>lastRequestUnixNano := now,
         logged := logged st @ [(LDebug, [S ''msg'',
           S (''Election id '' @ i @ '': Instance is not a leader. Can't write data'')])]\<rparr>,
      d)"
  by (simp add: sendSamples_def log_add_def)

text \<open>
  C6. With an elector configured whose \<open>IsLeader()\<close> returns an error, \<open>sendSamples\<close>
  returns that error at once: the result does not depend on the destination's \<open>Write\<close>,
  the destination's state is as it was, and the adapter's state differs only in the
  liveness timestamp and one error log line; no counter and no histogram changes.
\<close>

theorem sendSamples_leader_check_error:
  "sendSamples (Some \<lparr>IsLeader = (b, Some e), ID = i\<rparr>) w now dur samples st d =
     (Some e,
      st\<lparr>lastRequestUnixNano := now,
         logged := logged st @
           [(LError, [S ''msg'', S ''IsLeader check failed'', S ''err'', E e])]\<rparr>,
      d)"
  by (simp add: sendSamples_def log_add_def)

section \<open>Write errors are counted, not reported\<close>

lemma counter_value_add:
  "counter_value (counter_add l n c) l' =
     (if l' = l then counter_value c l + n else counter_value c l')"
  by (simp add: counter_value_def counter_add_def)

lemma counter_value_get: "counter_value (counter_get l c) l' = counter_value c l'"
  by (simp add: counter_value_def counter_get_def)

text \<open>
  C2. Take a request that decodes to a batch, let the gate pass it (no elector, or
  \<open>IsLeader()\<close> true without error), and let the destination's \<open>Write\<close> return an error
  on the batch. Then \<open>sendSamples\<close> returns that error having changed, besides the
  liveness timestamp, only the failed counter of the destination, by the batch size.
  The handler of \<open>/write\<close> (under \<open>timeHandler\<close>, as it is registered) answers 200 with
  an empty body; after it the failed counter has grown by exactly the batch size, every
  sent counter has the value it had, the batch-duration histogram is unchanged, and the
  error is in a warning line of the log.
\<close>

theorem write_error_counted_not_reported:
  assumes gate: "(case el of None \<Rightarrow> (True, None) | Some e \<Rightarrow> IsLeader e) = (True, None)"
    and dec: "snappyDecode compressed = Inr reqBuf"
    and unm: "unmarshal reqBuf = Inr req"
    and wr: "Write w (protoToSamples req) d = (Some werr, d')"
  shows "sendSamples el w now dur (protoToSamples req) st d =
           (Some werr,
            st\<lparr>lastRequestUnixNano := now,
               failedSamples :=
                 counter_add (Name w) (length (protoToSamples req)) (failedSamples st)\<rparr>,
            d')
       \<and> (case timeHandler ''write''
                 (write_handler snappyDecode unmarshal el w now dur tick (Inr compressed))
                 elapsed st d of
            (resp, st', d'') \<Rightarrow>
               resp = \<lparr>status = 200, body = []\<rparr>
             \<and> counter_value (failedSamples st') (Name w) =
                 counter_value (failedSamples st) (Name w) + length (protoToSamples req)
             \<and> (\<forall>l. counter_value (sentSamples st') l = counter_value (sentSamples st) l)
             \<and> sentBatchDuration st' = sentBatchDuration st
             \<and> (LWarn, [S ''msg'', S ''Error sending samples to remote storage'',
                         S ''err'', E werr, S ''storage'', S (Name w),
                         S ''num_samples'', N (length (protoToSamples req))]) \<in> set (logged st')
             \<and> d'' = d')"
proof -
  have send: "sendSamples el w now dur (protoToSamples req) st0 d =
           (Some werr,
            st0\<lparr>lastRequestUnixNano := now,
               failedSamples :=
                 counter_add (Name w) (length (protoToSamples req)) (failedSamples st0)\<rparr>,
            d')" for st0
    using gate wr by (cases el) (simp_all add: sendSamples_def)
  show ?thesis
    using dec unm
    by (cases tick)
       (simp_all add: send timeHandler_def write_handler_def log_add_def Let_def
        counter_value_add counter_value_get)
qed

lemma protoToSamples_example: "protoToSamples example_request = example_batch"
  by (simp add: protoToSamples_def example_request_def example_batch_def example_metric_def)

lemma Client_Write_copy_fault:
  "Client_Write marshal (fault_at CopyFrom err) samples example_pg =
     (Some err,
      example_pg\<lparr>pg_log := [(LError, [S ''msg'', S ''Error on copy'', S ''err'', E err])]\<rparr>)"
  by (simp add: Client_Write_def fault_at_def example_pg_def exec_def sqlCreateTmpTable_def
      cleanup_def sqlTempTableCleanup_def pg_log_add_def Let_def)

text \<open>
  The theorem at the client on pgx whose bulk load fails, with no elector, on the batch
  of the scenario: the response is 200 and the failed counter of \<open>PostgreSQL\<close> is 2.
\<close>

theorem write_error_counted_not_reported_witness:
  "(case timeHandler ''write''
           (write_handler Inr (\<lambda>buf. Inr example_request) None
              (Client_writer json_Marshal (fault_at CopyFrom ''connection reset''))
              7 0.25 None (Inr ''payload''))
           3000000 example_state example_pg of
      (resp, st', d'') \<Rightarrow>
         resp = \<lparr>status = 200, body = []\<rparr>
       \<and> counter_value (failedSamples st') ''PostgreSQL'' = 2
       \<and> counter_value (sentSamples st') ''PostgreSQL'' = 0
       \<and> sentBatchDuration st' = Map.empty)"
proof -
  let ?w = "Client_writer json_Marshal (fault_at CopyFrom ''connection reset'') ::
              (real sample list, real pg) writer"
  have gate: "(case None :: elector option of None \<Rightarrow> (True, None) | Some e \<Rightarrow> IsLeader e) =
                (True, None)"
    by simp
  have dec: "(Inr :: string \<Rightarrow> error + string) ''payload'' = Inr ''payload''"
    by simp
  have unm: "(\<lambda>buf :: string. (Inr example_request :: error + real TimeSeries list)) ''payload'' =
               Inr example_request"
    by simp
  have wr: "Write ?w (protoToSamples example_request) example_pg =
      (Some ''connection reset'',
       example_pg\<lparr>pg_log :=
         [(LError, [S ''msg'', S ''Error on copy'', S ''err'', E ''connection reset''])]\<rparr>)"
    by (simp add: Client_writer_def Client_Write_copy_fault)
  have name: "Name ?w = ''PostgreSQL''"
    by (simp add: Client_writer_def)
  have len: "length (protoToSamples example_request) = 2"
    by (simp add: protoToSamples_example example_batch_def)
  show ?thesis
    using write_error_counted_not_reported
      [where snappyDecode = Inr and compressed = "''payload''" and reqBuf = "''payload''"
         and unmarshal = "\<lambda>buf. Inr example_request" and req = example_request
         and el = None and w = ?w and d = example_pg and now = 7 and dur = "0.25"
         and st = example_state and tick = None and elapsed = 3000000,
       OF gate dec unm wr]
    by (simp add: name len example_state_def counter_value_def split: prod.splits)
qed

section \<open>The idle-resignation timeout at start-up\<close>

text \<open>
  C7, as the code has it. With the advisory-lock backend selected (a lock id other than
  0, no REST election), \<open>initElector\<close> ends the process over the timeout exactly when
  the timeout is \<open>-1\<close>, the default of the flag, which stands for "not set". Any other
  timeout, a negative one included, is accepted: when the lock can be created, the
  scheduled elector is returned, and the liveness check that resigns after the timeout
  is started unless the timeout is 0.
\<close>

theorem initElector_timeout_check:
  assumes "\<not> restElection cfg" and "haGroupLockID cfg \<noteq> 0"
  shows "fst (initElector newPgAdvisoryLock cfg) =
     (if prometheusTimeout cfg = - 1 then Exit 1
      else case newPgAdvisoryLock (haGroupLockID cfg) of
             Some err \<Rightarrow> Exit 1
           | None \<Rightarrow> Started (ScheduledElector (prometheusTimeout cfg \<noteq> 0)))"
  using assms by (simp add: initElector_def split: option.splits)

text \<open>The theorem at the timeout 0: accepted, and the liveness check is not started.\<close>

theorem initElector_timeout_check_witness:
  "fst (initElector (\<lambda>lockId. None) (example_config 0)) = Started (ScheduledElector False)"
proof -
  have r: "\<not> restElection (example_config 0)"
    by (simp add: example_config_def)
  have l: "haGroupLockID (example_config 0) \<noteq> 0"
    by (simp add: example_config_def)
  show ?thesis
    using initElector_timeout_check [OF r l, of "\<lambda>lockId. None"]
    by (simp add: example_config_def)
qed

text \<open>
  The claim as stated fails: a timeout of minus five seconds with the advisory-lock
  backend selected is not rejected; the elector starts, with the liveness check.
\<close>

theorem initElector_negative_timeout_accepted:
  "prometheusTimeout (example_config (- 5000000000)) < 0
   \<and> haGroupLockID (example_config (- 5000000000)) \<noteq> 0
   \<and> \<not> restElection (example_config (- 5000000000))
   \<and> fst (initElector (\<lambda>lockId. None) (example_config (- 5000000000))) =
       Started (ScheduledElector True)"
  by (simp add: initElector_def example_config_def)

section \<open>Canonical label text\<close>

lemma labelStrings_concat:
  "labelStrings marshal m =
     concat (map (\<lambda>(label, val).
       if label \<noteq> MetricNameLabel then
         (case marshal label of
            Inl err \<Rightarrow> []
          | Inr el \<Rightarrow> (case marshal val of Inl err \<Rightarrow> [] | Inr ev \<Rightarrow> [el @ '': '' @ ev]))
       else []) m)"
  by (induction m) (auto split: sum.splits)

lemma mset_concat_map:
  "mset (concat (map f xs)) = sum_mset (image_mset (\<lambda>x. mset (f x)) (mset xs))"
  by (induction xs) simp_all

lemma labelStrings_mset_cong:
  assumes "mset m = mset m'"
  shows "mset (labelStrings marshal m) = mset (labelStrings marshal m')"
  unfolding labelStrings_concat mset_concat_map using assms by simp

lemma sort_labelStrings_cong:
  assumes "mset m = mset m'"
  shows "sort (labelStrings marshal m) = sort (labelStrings marshal m')"
  by (rule properties_for_sort) (simp_all add: labelStrings_mset_cong [OF assms])

lemma metricMetaJson_order_independent:
  assumes dm: "distinct (map fst m)" and dm': "distinct (map fst m')" and eq: "set m = set m'"
  shows "metricMetaJson marshal m = metricMetaJson marshal m'"
proof -
  have "distinct m" "distinct m'"
    using dm dm' by (simp_all add: distinct_map)
  then have ms: "mset m = mset m'"
    using eq by (simp add: set_eq_iff_mset_eq_distinct)
  then have len: "length m = length m'"
    by (rule mset_eq_length)
  have mo: "map_of m = map_of m'"
    using dm dm' eq by (simp add: map_of_inject_set)
  show ?thesis
    unfolding metricMetaJson_def mo len sort_labelStrings_cong [OF ms] by (rule refl)
qed

lemma labelStrings_no_labels:
  "fst ` set m \<subseteq> {MetricNameLabel} \<Longrightarrow> labelStrings marshal m = []"
  by (induction m) auto

text \<open>
  In both branches of the \<open>switch\<close> the text is the sorted label strings, joined by
  commas, between braces: with \<open>numLabels = 0\<close> there is no label string.
\<close>

lemma metricMetaJson_text:
  "snd (metricMetaJson marshal m) = ''{'' @ join (sort (labelStrings marshal m)) '','' @ ''}''"
proof (cases "(if map_of m MetricNameLabel \<noteq> None then int (length m) - 1
               else int (length m)) = 0")
  case False
  then show ?thesis by (simp add: metricMetaJson_def Let_def)
next
  case True
  have "fst ` set m \<subseteq> {MetricNameLabel}"
  proof (cases m)
    case Nil
    then show ?thesis by simp
  next
    case (Cons kv m')
    with True have m': "m' = []" and has: "map_of m MetricNameLabel \<noteq> None"
      by (auto split: if_splits)
    with Cons show ?thesis by (cases kv) (auto split: if_splits)
  qed
  then have "labelStrings marshal m = []" by (rule labelStrings_no_labels)
  with True show ?thesis by (simp add: metricMetaJson_def Let_def)
qed

lemma labelStrings_total:
  "labelStrings (Inr \<circ> enc) m =
     map (\<lambda>(k, v). enc k @ '': '' @ enc v) (filter (\<lambda>(k, v). k \<noteq> MetricNameLabel) m)"
  by (induction m) auto

lemma join_nonempty:
  "xs \<noteq> [] \<Longrightarrow> [] \<notin> set xs \<Longrightarrow> join xs sep \<noteq> []"
  by (induction xs sep rule: join.induct) auto

lemma metricMetaJson_empty_iff:
  "snd (metricMetaJson (Inr \<circ> enc) m) = ''{}'' \<longleftrightarrow> fst ` set m \<subseteq> {MetricNameLabel}"
proof
  assume "fst ` set m \<subseteq> {MetricNameLabel}"
  then show "snd (metricMetaJson (Inr \<circ> enc) m) = ''{}''"
    by (simp add: metricMetaJson_text labelStrings_no_labels)
next
  assume e: "snd (metricMetaJson (Inr \<circ> enc) m) = ''{}''"
  let ?ls = "labelStrings (Inr \<circ> enc) m"
  have "join (sort ?ls) '','' = []"
    using e by (simp add: metricMetaJson_text)
  moreover have "[] \<notin> set (sort ?ls)"
    by (auto simp: labelStrings_total)
  ultimately have "sort ?ls = []"
    using join_nonempty by blast
  then have "?ls = []"
    by (metis length_sort length_0_conv)
  then have "filter (\<lambda>(k, v). k \<noteq> MetricNameLabel) m = []"
    by (simp add: labelStrings_total)
  then show "fst ` set m \<subseteq> {MetricNameLabel}"
    by (auto simp: filter_empty_conv)
qed

text \<open>
  When a key is written as it is between double quotes and all its bytes are above the
  double quote, the order of two label strings is the order of their keys: the closing
  quote of the shorter key is below the next byte of the longer one.
\<close>

lemma quoted_less:
  "k1 < k2 \<Longrightarrow> \<forall>c\<in>set k2. CHR 0x22 < c \<Longrightarrow>
     k1 @ CHR 0x22 # r1 < k2 @ CHR 0x22 # r2"
proof (induction k1 arbitrary: k2)
  case Nil
  then show ?case by (cases k2) auto
next
  case (Cons a k1)
  then show ?case by (cases k2) auto
qed

lemma render_less:
  assumes "k1 < k2" and "\<forall>c\<in>set k2. CHR 0x22 < c"
  shows "(CHR 0x22 # k1 @ [CHR 0x22]) @ '': '' @ e1 < (CHR 0x22 # k2 @ [CHR 0x22]) @ '': '' @ e2"
  using quoted_less [OF assms] by simp

lemma sort_render:
  assumes d: "distinct (map fst kvs)"
    and plain: "\<forall>k\<in>fst ` set kvs. enc k = CHR 0x22 # k @ [CHR 0x22] \<and> (\<forall>c\<in>set k. CHR 0x22 < c)"
  shows "sort (map (\<lambda>(k, v). enc k @ '': '' @ enc v) kvs) =
           map (\<lambda>(k, v). enc k @ '': '' @ enc v) (sort_key fst kvs)"
proof (rule properties_for_sort)
  let ?r = "\<lambda>(k, v). enc k @ '': '' @ enc v"
  show "mset (map ?r (sort_key fst kvs)) = mset (map ?r kvs)"
    by simp
  have mono: "?r x \<le> ?r y"
    if x: "x \<in> set kvs" and y: "y \<in> set kvs" and le: "fst x \<le> fst y" for x y
  proof (cases "fst x = fst y")
    case True
    with d x y have "x = y"
      by (meson distinct_map inj_onD)
    then show ?thesis by simp
  next
    case False
    with le have lt: "fst x < fst y" by simp
    from plain x y have px: "enc (fst x) = CHR 0x22 # fst x @ [CHR 0x22]"
      and py: "enc (fst y) = CHR 0x22 # fst y @ [CHR 0x22]"
      and cy: "\<forall>c\<in>set (fst y). CHR 0x22 < c"
      by auto
    have "?r x < ?r y"
      using render_less [OF lt cy, of "enc (snd x)" "enc (snd y)"] px py
      by (simp add: case_prod_unfold)
    then show ?thesis by simp
  qed
  have "sorted_wrt (\<lambda>x y. fst x \<le> fst y) (sort_key fst kvs)"
    using sorted_sort_key [of fst kvs] by (simp add: sorted_map)
  then have "sorted_wrt (\<lambda>x y. ?r x \<le> ?r y) (sort_key fst kvs)"
    by (rule sorted_wrt_mono_rel [rotated]) (use mono in auto)
  then show "sorted (map ?r (sort_key fst kvs))"
    by (simp add: sorted_map)
qed

lemma metricMetaJson_key_sorted:
  assumes d: "distinct (map fst m)"
    and plain: "\<forall>k\<in>fst ` set m. k \<noteq> MetricNameLabel \<longrightarrow>
                  enc k = CHR 0x22 # k @ [CHR 0x22] \<and> (\<forall>c\<in>set k. CHR 0x22 < c)"
  shows "snd (metricMetaJson (Inr \<circ> enc) m) = canonicalLabelsText enc m"
proof -
  let ?kvs = "filter (\<lambda>(k, v). k \<noteq> MetricNameLabel) m"
  have "distinct (map fst ?kvs)"
    using d by (simp add: distinct_map_filter)
  moreover have "\<forall>k\<in>fst ` set ?kvs. enc k = CHR 0x22 # k @ [CHR 0x22] \<and> (\<forall>c\<in>set k. CHR 0x22 < c)"
    using plain by force
  ultimately have "sort (map (\<lambda>(k, v). enc k @ '': '' @ enc v) ?kvs) =
           map (\<lambda>(k, v). enc k @ '': '' @ enc v) (sort_key fst ?kvs)"
    by (rule sort_render)
  then show ?thesis
    unfolding metricMetaJson_text labelStrings_total canonicalLabelsText_def by (rule arg_cong)
qed

text \<open>
  C5, as the code has it. For two maps with the same key/value pairs, visited in any
  two orders, \<open>metricMetaJson\<close> returns the same metric name and the same text. The text
  is the label strings \<open>key: value\<close>, sorted bytewise as whole strings, joined by commas
  between braces. With a \<open>marshal\<close> that never fails (as \<open>json.Marshal\<close> on a string) the
  text is \<open>{}\<close> exactly when the map has no label other than \<open>__name__\<close>. The sorted
  label strings are in the order of their keys, so that the text is the spec's
  key-sorted one, when every label name is written as it is between double quotes and
  has only bytes above the double quote; every label name of letters, digits and
  underscores is such a name.
\<close>

theorem metricMetaJson_canonical:
  assumes "distinct (map fst m)" and "distinct (map fst m')" and "set m = set m'"
  shows "metricMetaJson marshal m = metricMetaJson marshal m'
       \<and> snd (metricMetaJson marshal m) =
           ''{'' @ join (sort (labelStrings marshal m)) '','' @ ''}''
       \<and> (snd (metricMetaJson (Inr \<circ> enc) m) = ''{}'' \<longleftrightarrow> fst ` set m \<subseteq> {MetricNameLabel})
       \<and> ((\<forall>k\<in>fst ` set m. k \<noteq> MetricNameLabel \<longrightarrow>
              enc k = CHR 0x22 # k @ [CHR 0x22] \<and> (\<forall>c\<in>set k. CHR 0x22 < c))
            \<longrightarrow> snd (metricMetaJson (Inr \<circ> enc) m) = canonicalLabelsText enc m)"
proof (intro conjI impI)
  show "metricMetaJson marshal m = metricMetaJson marshal m'"
    using assms by (rule metricMetaJson_order_independent)
  show "snd (metricMetaJson marshal m) =
          ''{'' @ join (sort (labelStrings marshal m)) '','' @ ''}''"
    by (rule metricMetaJson_text)
  show "snd (metricMetaJson (Inr \<circ> enc) m) = ''{}'' \<longleftrightarrow> fst ` set m \<subseteq> {MetricNameLabel}"
    by (rule metricMetaJson_empty_iff)
  show "snd (metricMetaJson (Inr \<circ> enc) m) = canonicalLabelsText enc m"
    if "\<forall>k\<in>fst ` set m. k \<noteq> MetricNameLabel \<longrightarrow>
          enc k = CHR 0x22 # k @ [CHR 0x22] \<and> (\<forall>c\<in>set k. CHR 0x22 < c)"
    using assms(1) that by (rule metricMetaJson_key_sorted)
qed

lemma json_Marshal_total: "json_Marshal = Inr \<circ> json_string"
  by (simp add: fun_eq_iff json_Marshal_def)

lemma json_string_job: "json_string ''job'' = CHR 0x22 # ''job'' @ [CHR 0x22]"
  by (simp add: json_string_def json_escape_def)

text \<open>
  The theorem at the metric of the scenario, visited in two orders: both give the name
  \<open>up\<close> and the text \<open>{"job": "a"}\<close>, which is the key-sorted text and not \<open>{}\<close>.
\<close>

theorem metricMetaJson_canonical_witness:
  "metricMetaJson json_Marshal [(''job'', ''a''), (''__name__'', ''up'')] =
     metricMetaJson json_Marshal example_metric
   \<and> metricMetaJson json_Marshal example_metric = (''up'', ''{\"job\": \"a\"}'')
   \<and> snd (metricMetaJson json_Marshal example_metric) \<noteq> ''{}''
   \<and> snd (metricMetaJson json_Marshal example_metric) =
       canonicalLabelsText json_string example_metric"
proof -
  let ?m = "[(''job'', ''a''), (''__name__'', ''up'')]"
  have d: "distinct (map fst example_metric)" and d': "distinct (map fst ?m)"
    by (simp_all add: example_metric_def)
  have e: "set example_metric = set ?m"
    by (auto simp: example_metric_def)
  have plain: "\<forall>k\<in>fst ` set example_metric. k \<noteq> MetricNameLabel \<longrightarrow>
      json_string k = CHR 0x22 # k @ [CHR 0x22] \<and> (\<forall>c\<in>set k. CHR 0x22 < c)"
    by (simp add: example_metric_def MetricNameLabel_def json_string_job)
  have labels: "\<not> fst ` set example_metric \<subseteq> {MetricNameLabel}"
    by (simp add: example_metric_def MetricNameLabel_def)
  have val: "metricMetaJson json_Marshal example_metric = (''up'', ''{\"job\": \"a\"}'')"
    by (simp add: metricMetaJson_def example_metric_def MetricNameLabel_def json_Marshal_def
        json_string_def json_escape_def)
  note inst = metricMetaJson_canonical [OF d d' e, of json_Marshal json_string,
      unfolded json_Marshal_total [symmetric]]
  from inst have same: "metricMetaJson json_Marshal example_metric = metricMetaJson json_Marshal ?m"
    by (rule conjunct1)
  from inst labels have nonempty: "snd (metricMetaJson json_Marshal example_metric) \<noteq> ''{}''"
    by blast
  from inst plain have ks:
    "snd (metricMetaJson json_Marshal example_metric) = canonicalLabelsText json_string example_metric"
    by blast
  from same val nonempty ks show ?thesis
    by simp
qed

text \<open>
  Label names made of letters, digits and underscores are such names for the model of
  \<open>json.Marshal\<close>: it leaves these bytes as they are, and all of them are above the
  double quote. For metrics with such label names the code's text is the key-sorted
  one.
\<close>

lemma label_chars_plain:
  "\<forall>c\<in>set ''abcdefghijklmnopqrstuvwxyzABCDEFGHIJKLMNOPQRSTUVWXYZ0123456789_''.
     json_escape c = [c] \<and> CHR 0x22 < c"
  by (simp add: json_escape_def)

lemma json_escape_plain:
  assumes "c \<in> set ''abcdefghijklmnopqrstuvwxyzABCDEFGHIJKLMNOPQRSTUVWXYZ0123456789_''"
  shows "json_escape c = [c] \<and> CHR 0x22 < c"
  using label_chars_plain assms by (rule bspec)

lemma json_string_plain:
  assumes "valid_label_name k"
  shows "json_string k = CHR 0x22 # k @ [CHR 0x22] \<and> (\<forall>c\<in>set k. CHR 0x22 < c)"
proof -
  have "concat (map json_escape k) = k \<and> (\<forall>c\<in>set k. CHR 0x22 < c)"
    using assms
  proof (induction k)
    case Nil
    then show ?case by simp
  next
    case (Cons c k)
    then have "json_escape c = [c] \<and> CHR 0x22 < c" and "valid_label_name k"
      by (simp_all add: valid_label_name_def json_escape_plain)
    with Cons.IH show ?case by simp
  qed
  then show ?thesis by (simp add: json_string_def)
qed

lemma metricMetaJson_valid_names_key_sorted:
  assumes "distinct (map fst m)" and "\<forall>k\<in>fst ` set m. valid_label_name k"
  shows "snd (metricMetaJson json_Marshal m) = canonicalLabelsText json_string m"
proof -
  have "\<forall>k\<in>fst ` set m. k \<noteq> MetricNameLabel \<longrightarrow>
          json_string k = CHR 0x22 # k @ [CHR 0x22] \<and> (\<forall>c\<in>set k. CHR 0x22 < c)"
    using assms(2) json_string_plain by blast
  with assms(1) show ?thesis
    unfolding json_Marshal_total by (rule metricMetaJson_key_sorted)
qed

text \<open>
  The claim as stated fails: with the label names \<open>a\<close> and \<open>a!\<close> the text lists \<open>a!\<close>
  before \<open>a\<close>, though \<open>a\<close> is the smaller key (the closing quote of \<open>"a"\<close> is above the
  \<open>!\<close> in \<open>"a!"\<close>); the key-sorted text has them the other way round.
\<close>

theorem metricMetaJson_not_key_sorted:
  "distinct (map fst [(''a'', ''1''), (''a!'', ''2'')])
   \<and> ''a'' < ''a!''
   \<and> snd (metricMetaJson json_Marshal [(''a'', ''1''), (''a!'', ''2'')]) =
       ''{\"a!\": \"2\",\"a\": \"1\"}''
   \<and> canonicalLabelsText json_string [(''a'', ''1''), (''a!'', ''2'')] =
       ''{\"a\": \"1\",\"a!\": \"2\"}''"
  by (simp add: metricMetaJson_def MetricNameLabel_def json_Marshal_def json_string_def
      json_escape_def canonicalLabelsText_def)

section \<open>Credentials\<close>

text \<open>
  C8. For a client made by \<open>NewClient\<close> (on pgx), every connection the pool opens is
  opened with the content the password file has at that moment: over any series of
  file-system states, one per new connection, the passwords used are the contents
  read from those states, and a connection attempted while the file cannot be read
  ends the process. Nothing read when the client was made is used: \<open>NewClient\<close> does
  not read the file at all.
\<close>

theorem connects_rereads_password:
  assumes "NewClient parseConfig c = (Started cl, lg)"
  shows "connects cl fss =
           map (\<lambda>fs. case fs (passwordFile c) of
                        Inl err \<Rightarrow> Exit 1
                      | Inr content \<Rightarrow> Started ((client_connConfig cl)\<lparr>Password := content\<rparr>))
             fss"
  using assms
  by (auto simp: NewClient_def connects_def connect_def beforeConnectHook_def readPassword_def
      split: sum.splits)

text \<open>
  The theorem at a client whose password file is rotated from \<open>old\<close> to \<open>new\<close> between
  two connections: the first session is opened with \<open>old\<close>, the second with \<open>new\<close>.
\<close>

theorem connects_rereads_password_witness:
  "connects \<lparr>client_connConfig = \<lparr>ConnString = baseConnStr example_Config, Password = []\<rparr>,
             client_config = example_Config\<rparr>
     [\<lambda>path. Inr ''old'', \<lambda>path. Inr ''new''] =
   [Started \<lparr>ConnString = baseConnStr example_Config, Password = ''old''\<rparr>,
    Started \<lparr>ConnString = baseConnStr example_Config, Password = ''new''\<rparr>]"
proof -
  have made: "NewClient (\<lambda>str. Inr \<lparr>ConnString = str, Password = []\<rparr>) example_Config =
     (Started \<lparr>client_connConfig = \<lparr>ConnString = baseConnStr example_Config, Password = []\<rparr>,
               client_config = example_Config\<rparr>,
      [(LInfo, [S ''msg'', S (baseConnStr example_Config)])])"
    by (simp add: NewClient_def)
  show ?thesis
    using connects_rereads_password [OF made, of "[\<lambda>path. Inr ''old'', \<lambda>path. Inr ''new'']"]
    by simp
qed

text \<open>
  The client on lib/pq, by contrast, keeps the connection string it built from the
  password read in \<open>NewClient\<close>.
\<close>

lemma legacy_NewClient_reads_once:
  assumes "legacy_NewClient sqlOpen dbPrepare fs c = (Started cl, lg)"
  shows "\<exists>content. fs (passwordFile c) = Inr content \<and>
           legacy_connString cl = legacy_connStr c content"
  using assms
  by (auto simp: legacy_NewClient_def Let_def split: sum.splits option.splits)

section \<open>The connection string in the log\<close>

text \<open>
  The client on pgx logs \<open>baseConnStr\<close>, which is built from the configuration alone.
\<close>

lemma NewClient_log_without_password:
  "snd (NewClient parseConfig c) = [(LInfo, [S ''msg'', S (baseConnStr c)])]
   \<or> (\<exists>err. snd (NewClient parseConfig c) = [(LError, [S ''err'', E err])])"
  by (simp add: NewClient_def split: sum.splits)

text \<open>
  C10 does not hold of the client on lib/pq. With a password file that ends in a
  newline (here \<open>s3cret\<close> and a newline), the pattern \<open>password='(.+?)'\<close> finds no match,
  since \<open>.\<close> does not match the newline before the closing quote, and \<open>NewClient\<close> logs
  the connection string as it is, password included.
\<close>

theorem legacy_NewClient_logs_password:
  "snd (legacy_NewClient (\<lambda>str. None) (\<lambda>stmt. None) (\<lambda>path. Inr ''s3cret\<newline>'') example_Config) =
     [(LInfo, [S ''msg'',
        S (''host=localhost port=5432 user=postgres dbname=postgres password='' @ [CHR 0x27] @
           ''s3cret\<newline>'' @ [CHR 0x27] @ '' sslmode=disable connect_timeout=10'')])]"
  by (simp add: Let_def legacy_NewClient_def example_Config_def legacy_connStr_def show_int_def
      match_password_def)

text \<open>
  A password without quote and newline is masked; one with a quote inside is masked
  only up to that quote, and what follows it is logged.
\<close>

lemma maskPassword_plain:
  "maskPassword (legacy_connStr example_Config ''s3cret'') =
     ''host=localhost port=5432 user=postgres dbname=postgres password='' @ [CHR 0x27] @
     ''****'' @ [CHR 0x27] @ '' sslmode=disable connect_timeout=10''"
  by (simp add: example_Config_def legacy_connStr_def show_int_def match_password_def)

lemma maskPassword_quote_leaks_tail:
  "maskPassword (legacy_connStr example_Config (''s3'' @ [CHR 0x27] @ ''cret'')) =
     ''host=localhost port=5432 user=postgres dbname=postgres password='' @ [CHR 0x27] @
     ''****'' @ [CHR 0x27] @ ''cret'' @ [CHR 0x27] @ '' sslmode=disable connect_timeout=10''"
  by (simp add: example_Config_def legacy_connStr_def show_int_def match_password_def)

section \<open>The batched writer\<close>

subsection \<open>Cleanup\<close>

lemma cleanup_released: "conn_held (cleanup f db) = False"
  by (simp add: cleanup_def Let_def)

lemma cleanup_dropped: "f DropTmp = None \<Longrightarrow> tmp_tbl (cleanup f db) = None"
  by (simp add: cleanup_def Let_def exec_def sqlTempTableCleanup_def pg_log_add_def
      split: option.splits)

lemma cleanup_drop_failed:
  "f DropTmp = Some err \<Longrightarrow>
     cleanup f db =
       db\<lparr>conn_held := False,
          pg_log := pg_log db @
            [(LError, [S ''msg'', S ''Failed to clean up temp table'', S ''err'', E err])]\<rparr>"
  by (simp add: cleanup_def Let_def exec_def pg_log_add_def)

lemma Client_Write_cleanup_runs:
  assumes "f Acquire = None"
  shows "\<exists>db'. snd (Client_Write marshal f samples db) = cleanup f db'"
  using assms by (auto simp: Client_Write_def Let_def case_prod_beta)

lemma Client_Write_not_acquired:
  assumes "f Acquire = Some err"
  shows "Client_Write marshal f samples db =
     (Some err,
      db\<lparr>pg_log := pg_log db @
        [(LError, [S ''msg'', S ''Failed to acquire database connection'', S ''err'', E err])]\<rparr>)"
  using assms by (simp add: Client_Write_def pg_log_add_def)

text \<open>
  C4, as the code has it. Whenever \<open>Write\<close> reserves a session, then whatever the
  fault plan makes fail afterwards (creating the staging table, the bulk load, any step
  of the two transactions, the drop itself) and whatever staging table the session came
  with, \<open>cleanup\<close> has run when \<open>Write\<close> returns: the session is back in the pool; the
  staging table is gone whenever the statement that drops it does not itself fail; and
  when that statement fails, the drop was still attempted, its failure is in the log
  and nothing more is done about it.
\<close>

theorem Client_Write_cleanup:
  assumes "f Acquire = None"
  shows "conn_held (snd (Client_Write marshal f samples db)) = False
       \<and> (f DropTmp = None \<longrightarrow> tmp_tbl (snd (Client_Write marshal f samples db)) = None)
       \<and> (\<forall>err. f DropTmp = Some err \<longrightarrow>
             (LError, [S ''msg'', S ''Failed to clean up temp table'', S ''err'', E err])
               \<in> set (pg_log (snd (Client_Write marshal f samples db))))"
proof -
  obtain db' where "snd (Client_Write marshal f samples db) = cleanup f db'"
    using assms Client_Write_cleanup_runs [of f marshal samples db] by blast
  then show ?thesis
    by (simp add: cleanup_released cleanup_dropped cleanup_drop_failed)
qed

text \<open>
  The theorem at a write of the scenario's batch in which executing the values
  statement fails: the error is returned, the label row stays committed, and the
  session is released without a staging table.
\<close>

theorem Client_Write_cleanup_witness:
  "fst (Client_Write json_Marshal (fault_at (Exec TxValues) ''deadlock detected'')
          example_batch example_pg) = Some ''deadlock detected''
   \<and> conn_held (snd (Client_Write json_Marshal (fault_at (Exec TxValues) ''deadlock detected'')
          example_batch example_pg)) = False
   \<and> tmp_tbl (snd (Client_Write json_Marshal (fault_at (Exec TxValues) ''deadlock detected'')
          example_batch example_pg)) = None"
proof -
  let ?f = "fault_at (Exec TxValues) ''deadlock detected''"
  have a: "?f Acquire = None" and d: "?f DropTmp = None"
    by (simp_all add: fault_at_def)
  have e: "fst (Client_Write json_Marshal ?f example_batch example_pg) = Some ''deadlock detected''"
    by (simp add: Client_Write_def fault_at_def example_pg_def exec_def sqlCreateTmpTable_def
        copyFrom_def insertLabels_def insertValues_def copyFromTmpTableInTransaction_def
        sqlInsertLabels_def Let_def case_prod_beta)
  show ?thesis
    using Client_Write_cleanup
      [where f = ?f and marshal = json_Marshal and samples = example_batch and db = example_pg,
       OF a] d e
    by simp
qed

text \<open>
  The claim as stated fails: it has the staging table dropped on every exit path.
  When the statement that drops the table fails (here by a statement timeout) after a
  write of the scenario's batch in which all else succeeded, \<open>cleanup\<close> only logs the
  failure: \<open>Write\<close> returns no error, the session is released, and its staging table is
  still there with the two staged rows.
\<close>

theorem Client_Write_drop_fault_leaves_table:
  "fault_at DropTmp ''canceling statement due to statement timeout'' Acquire = None
   \<and> fst (Client_Write json_Marshal
            (fault_at DropTmp ''canceling statement due to statement timeout'')
            example_batch example_pg) = None
   \<and> conn_held (snd (Client_Write json_Marshal
            (fault_at DropTmp ''canceling statement due to statement timeout'')
            example_batch example_pg)) = False
   \<and> tmp_tbl (snd (Client_Write json_Marshal
            (fault_at DropTmp ''canceling statement due to statement timeout'')
            example_batch example_pg)) =
       Some [\<lparr>s_time = 1000, s_value = 1, s_metric_name = ''up'',
               s_labels = ''{\"job\": \"a\"}''\<rparr>,
             \<lparr>s_time = 2000, s_value = 0, s_metric_name = ''up'',
               s_labels = ''{\"job\": \"a\"}''\<rparr>]"
proof -
  let ?f = "fault_at DropTmp ''canceling statement due to statement timeout''"
  have rows: "map (inputRow json_Marshal) example_batch =
     [\<lparr>s_time = 1000, s_value = 1, s_metric_name = ''up'', s_labels = ''{\"job\": \"a\"}''\<rparr>,
      \<lparr>s_time = 2000, s_value = 0, s_metric_name = ''up'', s_labels = ''{\"job\": \"a\"}''\<rparr>]"
    by (simp add: example_batch_def inputRow_def metricMetaJson_def example_metric_def
        MetricNameLabel_def json_Marshal_def json_string_def json_escape_def)
  have run: "Client_Write json_Marshal ?f example_batch example_pg =
     (None,
      \<lparr>labels_tbl = [\<lparr>l_id = 1, l_metric_name = ''up'', l_labels = ''{\"job\": \"a\"}''\<rparr>],
       values_tbl = [\<lparr>v_time = 1000, v_value = 1, v_labels_id = Some 1\<rparr>,
                     \<lparr>v_time = 2000, v_value = 0, v_labels_id = Some 1\<rparr>],
       next_id = 2,
       tmp_tbl = Some (map (inputRow json_Marshal) example_batch),
       conn_held = False,
       pg_log = [(LDebug, [S ''msg'', S ''Wrote samples'', S ''count'', N 2]),
                 (LError, [S ''msg'', S ''Failed to clean up temp table'', S ''err'',
                    E ''canceling statement due to statement timeout''])]\<rparr>)"
    unfolding Client_Write_def rows
    by (simp add: fault_at_def example_pg_def example_batch_def exec_def
        sqlCreateTmpTable_def copyFrom_def insertLabels_def insertValues_def
        copyFromTmpTableInTransaction_def sqlInsertLabels_def sqlInsertValues_def
        cleanup_def pg_log_add_def staged_key_def label_key_def left_join_labels_def Let_def)
  show ?thesis
    by (simp add: run rows) (simp add: fault_at_def)
qed

subsection \<open>The left join of the values statement\<close>

lemma copyFromTmpTableInTransaction_ok:
  assumes "f (BeginTx t) = None" "f (Prepare t) = None" "f (Exec t) = None"
    "f (CloseStmt t) = None" "f (Commit t) = None" "query db = Inr db'"
  shows "copyFromTmpTableInTransaction f t query desc db = (None, db')"
  using assms by (simp add: copyFromTmpTableInTransaction_def exec_def)

text \<open>
  C9. Let the staging table hold a row whose pair of metric name and label text no row
  of the labels table has, and let no step of the values transaction fail. Then
  \<open>insertValues\<close> succeeds, appends the left join of all staged rows to the values
  table, and for that row the join is exactly one value row, with its time, its value
  and a null label identifier; so that row is in the values table afterwards.
\<close>

theorem insertValues_left_join:
  assumes staged: "tmp_tbl db = Some rows" and r: "r \<in> set rows"
    and unmatched: "staged_key r \<notin> set (map label_key (labels_tbl db))"
    and ok: "f (BeginTx TxValues) = None" "f (Prepare TxValues) = None"
      "f (Exec TxValues) = None" "f (CloseStmt TxValues) = None" "f (Commit TxValues) = None"
  shows "fst (insertValues f db) = None
       \<and> values_tbl (snd (insertValues f db)) =
           values_tbl db @ concat (map (left_join_labels (labels_tbl db)) rows)
       \<and> left_join_labels (labels_tbl db) r =
           [\<lparr>v_time = s_time r, v_value = s_value r, v_labels_id = None\<rparr>]
       \<and> \<lparr>v_time = s_time r, v_value = s_value r, v_labels_id = None\<rparr>
           \<in> set (values_tbl (snd (insertValues f db)))"
proof -
  let ?db' = "db\<lparr>values_tbl :=
                  values_tbl db @ concat (map (left_join_labels (labels_tbl db)) rows)\<rparr>"
  have q: "sqlInsertValues db = Inr ?db'"
    using staged by (simp add: sqlInsertValues_def)
  have run: "insertValues f db = (None, ?db')"
    using ok q by (simp add: insertValues_def copyFromTmpTableInTransaction_ok)
  have "filter (\<lambda>l. l_metric_name l = s_metric_name r \<and> l_labels l = s_labels r)
          (labels_tbl db) = []"
    using unmatched by (force simp: filter_empty_conv staged_key_def label_key_def image_iff)
  then have lj: "left_join_labels (labels_tbl db) r =
           [\<lparr>v_time = s_time r, v_value = s_value r, v_labels_id = None\<rparr>]"
    by (simp add: left_join_labels_def)
  have "\<lparr>v_time = s_time r, v_value = s_value r, v_labels_id = None\<rparr>
          \<in> set (concat (map (left_join_labels (labels_tbl db)) rows))"
    using r lj by force
  with run lj show ?thesis by simp
qed

text \<open>
  The theorem at a session whose staging table holds one row of the metric \<open>up\<close> while
  the labels table is empty: the values table gets that row with a null identifier.
\<close>

theorem insertValues_left_join_witness:
  "insertValues (\<lambda>st. None)
     (example_pg\<lparr>tmp_tbl := Some [\<lparr>s_time = 1000, s_value = 1, s_metric_name = ''up'',
                                    s_labels = ''{}''\<rparr>]\<rparr>) =
   (None,
    example_pg\<lparr>tmp_tbl := Some [\<lparr>s_time = 1000, s_value = 1, s_metric_name = ''up'',
                                   s_labels = ''{}''\<rparr>],
               values_tbl := [\<lparr>v_time = 1000, v_value = 1, v_labels_id = None\<rparr>]\<rparr>)"
proof -
  let ?r = "\<lparr>s_time = 1000, s_value = 1 :: real, s_metric_name = ''up'', s_labels = ''{}''\<rparr>"
  let ?db = "example_pg\<lparr>tmp_tbl := Some [?r]\<rparr>"
  have staged: "tmp_tbl ?db = Some [?r]" by simp
  have r: "?r \<in> set [?r]" by simp
  have unmatched: "staged_key ?r \<notin> set (map label_key (labels_tbl ?db))"
    by (simp add: example_pg_def)
  have ok: "(\<lambda>st :: step. None :: error option) s = None" for s by simp
  have "fst (insertValues (\<lambda>st. None) ?db) = None
      \<and> values_tbl (snd (insertValues (\<lambda>st. None) ?db)) =
          values_tbl ?db @ concat (map (left_join_labels (labels_tbl ?db)) [?r])
      \<and> left_join_labels (labels_tbl ?db) ?r =
          [\<lparr>v_time = s_time ?r, v_value = s_value ?r, v_labels_id = None\<rparr>]
      \<and> \<lparr>v_time = s_time ?r, v_value = s_value ?r, v_labels_id = None\<rparr>
          \<in> set (values_tbl (snd (insertValues (\<lambda>st. None) ?db)))"
    by (rule insertValues_left_join [OF staged r unmatched ok ok ok ok ok])
  then have f: "fst (insertValues (\<lambda>st. None) ?db) = None"
    and v: "values_tbl (snd (insertValues (\<lambda>st. None) ?db)) =
              [\<lparr>v_time = 1000, v_value = 1, v_labels_id = None\<rparr>]"
    by (simp_all add: example_pg_def)
  have rest: "snd (insertValues (\<lambda>st. None) ?db) =
     ?db\<lparr>values_tbl := values_tbl (snd (insertValues (\<lambda>st. None) ?db))\<rparr>"
    by (simp add: insertValues_def copyFromTmpTableInTransaction_def exec_def
        sqlInsertValues_def)
  show ?thesis
    using f v rest by (metis prod.collapse)
qed

subsection \<open>One label row for a label set\<close>

lemma insert_keys:
  "set (map label_key (fst (insert_on_conflict_do_nothing ps tbl n))) =
     set (map label_key tbl) \<union> set ps"
  by (induction ps tbl n rule: insert_on_conflict_do_nothing.induct)
     (auto simp: label_key_def)

lemma insert_distinct:
  "distinct (map label_key tbl) \<Longrightarrow>
     distinct (map label_key (fst (insert_on_conflict_do_nothing ps tbl n)))"
  by (induction ps tbl n rule: insert_on_conflict_do_nothing.induct)
     (auto simp: label_key_def)

lemma insert_keeps_rows:
  "\<exists>new. fst (insert_on_conflict_do_nothing ps tbl n) = tbl @ new"
  by (induction ps tbl n rule: insert_on_conflict_do_nothing.induct) auto

lemma unique_row:
  "distinct (map g xs) \<Longrightarrow> y \<in> set (map g xs) \<Longrightarrow> \<exists>x. filter (\<lambda>x. g x = y) xs = [x]"
proof (induction xs)
  case Nil
  then show ?case by simp
next
  case (Cons a xs)
  show ?case
  proof (cases "g a = y")
    case True
    with Cons.prems have "filter (\<lambda>x. g x = y) xs = []"
      by (force simp: filter_empty_conv image_iff)
    with True show ?thesis by simp
  next
    case False
    with Cons show ?thesis by auto
  qed
qed

lemma left_join_matched:
  assumes "filter (\<lambda>l. label_key l = staged_key r) tbl = [l]"
  shows "left_join_labels tbl r =
           [\<lparr>v_time = s_time r, v_value = s_value r, v_labels_id = Some (l_id l)\<rparr>]"
proof -
  have "(\<lambda>l. l_metric_name l = s_metric_name r \<and> l_labels l = s_labels r) =
        (\<lambda>l. label_key l = staged_key r)"
    by (auto simp: label_key_def staged_key_def)
  with assms show ?thesis by (simp add: left_join_labels_def)
qed

text \<open>A write in which nothing fails, on a session without a staging table.\<close>

lemma Client_Write_success:
  assumes fresh: "tmp_tbl db = None"
  shows "Client_Write marshal (\<lambda>st. None) samples db =
    (let rows = map (inputRow marshal) samples;
         (tbl, n) = insert_on_conflict_do_nothing (remdups (map staged_key rows))
                      (labels_tbl db) (next_id db)
     in (None,
         db\<lparr>labels_tbl := tbl, next_id := n,
            values_tbl := values_tbl db @ concat (map (left_join_labels tbl) rows),
            tmp_tbl := None, conn_held := False,
            pg_log := pg_log db @
              [(LDebug, [S ''msg'', S ''Wrote samples'', S ''count'', N (length samples)])]\<rparr>))"
  using fresh
  by (simp add: Client_Write_def Let_def exec_def sqlCreateTmpTable_def copyFrom_def
      insertLabels_def insertValues_def copyFromTmpTableInTransaction_def sqlInsertLabels_def
      sqlInsertValues_def cleanup_def sqlTempTableCleanup_def pg_log_add_def
      split: prod.splits)

text \<open>
  C3. Let the labels table satisfy its uniqueness constraint and let the session have
  no staging table. A write of two samples whose metrics canonicalize to the same pair
  of metric name and label text, in which no step fails, returns no error; afterwards
  the labels table has exactly one row with that pair (the one it had, or a new one),
  the values table has gained exactly two rows, one per sample with the sample's time
  and value, both carrying that row's identifier, and the uniqueness constraint still
  holds.
\<close>

theorem Client_Write_dedup:
  assumes fresh: "tmp_tbl db = None"
    and uniq: "distinct (map label_key (labels_tbl db))"
    and same: "metricMetaJson marshal (Metric s1) = metricMetaJson marshal (Metric s2)"
  shows "\<exists>db' l. Client_Write marshal (\<lambda>st. None) [s1, s2] db = (None, db')
       \<and> filter (\<lambda>r. label_key r = metricMetaJson marshal (Metric s1)) (labels_tbl db') = [l]
       \<and> values_tbl db' = values_tbl db @
            [\<lparr>v_time = Timestamp s1, v_value = Value s1, v_labels_id = Some (l_id l)\<rparr>,
             \<lparr>v_time = Timestamp s2, v_value = Value s2, v_labels_id = Some (l_id l)\<rparr>]
       \<and> distinct (map label_key (labels_tbl db'))"
proof -
  let ?p = "metricMetaJson marshal (Metric s1)"
  let ?r1 = "inputRow marshal s1" and ?r2 = "inputRow marshal s2"
  have k1: "staged_key ?r1 = ?p" and k2: "staged_key ?r2 = ?p"
    using same by (simp_all add: inputRow_def staged_key_def case_prod_beta)
  obtain tbl n
    where ins: "insert_on_conflict_do_nothing [?p] (labels_tbl db) (next_id db) = (tbl, n)"
    by fastforce
  have d: "distinct (map label_key tbl)"
    using insert_distinct [OF uniq, of "[?p]" "next_id db"] ins by simp
  have "?p \<in> set (map label_key tbl)"
    using insert_keys [of "[?p]" "labels_tbl db" "next_id db"] ins by simp
  with d obtain l where l: "filter (\<lambda>r. label_key r = ?p) tbl = [l]"
    using unique_row [of label_key tbl ?p] by blast
  have j1: "left_join_labels tbl ?r1 =
      [\<lparr>v_time = Timestamp s1, v_value = Value s1, v_labels_id = Some (l_id l)\<rparr>]"
    using left_join_matched [of ?r1 tbl l] l k1 by (simp add: inputRow_def case_prod_beta)
  have j2: "left_join_labels tbl ?r2 =
      [\<lparr>v_time = Timestamp s2, v_value = Value s2, v_labels_id = Some (l_id l)\<rparr>]"
    using left_join_matched [of ?r2 tbl l] l k2 by (simp add: inputRow_def case_prod_beta)
  have "Client_Write marshal (\<lambda>st. None) [s1, s2] db =
     (None,
      db\<lparr>labels_tbl := tbl, next_id := n,
         values_tbl := values_tbl db @
            [\<lparr>v_time = Timestamp s1, v_value = Value s1, v_labels_id = Some (l_id l)\<rparr>,
             \<lparr>v_time = Timestamp s2, v_value = Value s2, v_labels_id = Some (l_id l)\<rparr>],
         tmp_tbl := None, conn_held := False,
         pg_log := pg_log db @
           [(LDebug, [S ''msg'', S ''Wrote samples'', S ''count'', N (length [s1, s2])])]\<rparr>)"
    unfolding Client_Write_success [OF fresh]
    using ins k1 k2 j1 j2 by (simp add: Let_def)
  with l d show ?thesis by simp
qed

lemma metricMetaJson_example:
  "metricMetaJson json_Marshal example_metric = (''up'', ''{\"job\": \"a\"}'')"
  by (simp add: metricMetaJson_def example_metric_def MetricNameLabel_def json_Marshal_def
      json_string_def json_escape_def)

lemma Client_Write_example:
  "Client_Write json_Marshal (\<lambda>st. None) example_batch example_pg =
     (None,
      \<lparr>labels_tbl = [\<lparr>l_id = 1, l_metric_name = ''up'', l_labels = ''{\"job\": \"a\"}''\<rparr>],
       values_tbl = [\<lparr>v_time = 1000, v_value = 1, v_labels_id = Some 1\<rparr>,
                     \<lparr>v_time = 2000, v_value = 0, v_labels_id = Some 1\<rparr>],
       next_id = 2, tmp_tbl = None, conn_held = False,
       pg_log = [(LDebug, [S ''msg'', S ''Wrote samples'', S ''count'', N 2])]\<rparr>)"
proof -
  have fresh: "tmp_tbl example_pg = None"
    by (simp add: example_pg_def)
  have rows: "map (inputRow json_Marshal) example_batch =
     [\<lparr>s_time = 1000, s_value = 1, s_metric_name = ''up'', s_labels = ''{\"job\": \"a\"}''\<rparr>,
      \<lparr>s_time = 2000, s_value = 0, s_metric_name = ''up'', s_labels = ''{\"job\": \"a\"}''\<rparr>]"
    by (simp add: example_batch_def inputRow_def metricMetaJson_example)
  show ?thesis
    unfolding Client_Write_success [OF fresh] rows
    by (simp add: example_pg_def example_batch_def staged_key_def label_key_def
        left_join_labels_def)
qed

text \<open>
  The theorem at the scenario of the spec, on an empty store: one label row
  \<open>("up", {"job": "a"})\<close> and the two value rows \<open>(1000, 1)\<close> and \<open>(2000, 0)\<close>, both
  with its identifier.
\<close>

theorem Client_Write_dedup_witness:
  "(\<exists>db' l. Client_Write json_Marshal (\<lambda>st. None) example_batch example_pg = (None, db')
       \<and> filter (\<lambda>r. label_key r = (''up'', ''{\"job\": \"a\"}'')) (labels_tbl db') = [l]
       \<and> values_tbl db' =
            [\<lparr>v_time = 1000, v_value = 1, v_labels_id = Some (l_id l)\<rparr>,
             \<lparr>v_time = 2000, v_value = 0, v_labels_id = Some (l_id l)\<rparr>]
       \<and> distinct (map label_key (labels_tbl db')))
   \<and> labels_tbl (snd (Client_Write json_Marshal (\<lambda>st. None) example_batch example_pg)) =
       [\<lparr>l_id = 1, l_metric_name = ''up'', l_labels = ''{\"job\": \"a\"}''\<rparr>]"
proof -
  let ?s1 = "\<lparr>Metric = example_metric, Value = 1 :: real, Timestamp = 1000\<rparr>"
  let ?s2 = "\<lparr>Metric = example_metric, Value = 0 :: real, Timestamp = 2000\<rparr>"
  have fresh: "tmp_tbl example_pg = None"
    and uniq: "distinct (map label_key (labels_tbl example_pg))"
    by (simp_all add: example_pg_def)
  have same: "metricMetaJson json_Marshal (Metric ?s1) = metricMetaJson json_Marshal (Metric ?s2)"
    by simp
  have v0: "values_tbl example_pg = []"
    by (simp add: example_pg_def)
  have "\<exists>db' l. Client_Write json_Marshal (\<lambda>st. None) [?s1, ?s2] example_pg = (None, db')
       \<and> filter (\<lambda>r. label_key r = metricMetaJson json_Marshal (Metric ?s1)) (labels_tbl db') = [l]
       \<and> values_tbl db' = values_tbl example_pg @
            [\<lparr>v_time = Timestamp ?s1, v_value = Value ?s1, v_labels_id = Some (l_id l)\<rparr>,
             \<lparr>v_time = Timestamp ?s2, v_value = Value ?s2, v_labels_id = Some (l_id l)\<rparr>]
       \<and> distinct (map label_key (labels_tbl db'))"
    using fresh uniq same by (rule Client_Write_dedup)
  then have general:
    "\<exists>db' l. Client_Write json_Marshal (\<lambda>st. None) example_batch example_pg = (None, db')
       \<and> filter (\<lambda>r. label_key r = (''up'', ''{\"job\": \"a\"}'')) (labels_tbl db') = [l]
       \<and> values_tbl db' =
            [\<lparr>v_time = 1000, v_value = 1, v_labels_id = Some (l_id l)\<rparr>,
             \<lparr>v_time = 2000, v_value = 0, v_labels_id = Some (l_id l)\<rparr>]
       \<and> distinct (map label_key (labels_tbl db'))"
    by (simp add: example_batch_def metricMetaJson_example v0)
  have row: "labels_tbl (snd (Client_Write json_Marshal (\<lambda>st. None) example_batch example_pg)) =
       [\<lparr>l_id = 1, l_metric_name = ''up'', l_labels = ''{\"job\": \"a\"}''\<rparr>]"
    by (simp add: Client_Write_example)
  from general row show ?thesis
    by (rule conjI)
qed

end
